theory Spec2Isabelle
  imports Main "HOL-Library.Char_ord" "HOL-Library.List_Lexorder"
begin

section \<open>Python values and their JSON rendering\<close>

text \<open>
  The handlers of \<^verbatim>\<open>routers/get_router.py\<close> return Python dictionaries whose
  values are strings, integers, \<^verbatim>\<open>None\<close> or dictionaries again. A dictionary keeps
  its insertion order, so it is an association list. The web framework turns the
  returned value into the JSON body of the response: \<^verbatim>\<open>None\<close> becomes
  \<^verbatim>\<open>null\<close>, everything else keeps its shape.
\<close>

datatype py_value =
    PyNone
  | PyInt int
  | PyStr string
  | PyDict "(string \<times> py_value) list"

datatype json =
    JNull
  | JNum int
  | JStr string
  | JObject "(string \<times> json) list"

fun jsonable_encoder :: "py_value \<Rightarrow> json" where
  "jsonable_encoder PyNone = JNull"
| "jsonable_encoder (PyInt i) = JNum i"
| "jsonable_encoder (PyStr s) = JStr s"
| "jsonable_encoder (PyDict kvs) = JObject (map (\<lambda>(k, v). (k, jsonable_encoder v)) kvs)"

section \<open>services/first\_service.py\<close>

record Animal =
  name :: string
  species :: string

definition Animal_init :: "string \<Rightarrow> string \<Rightarrow> Animal" where
  "Animal_init n s = \<lparr>name = n, species = s\<rparr>"

definition make_sound :: "Animal \<Rightarrow> string" where
  "make_sound self = ''Roar!''"

definition Animal_str :: "Animal \<Rightarrow> string" where
  "Animal_str self = name self @ '' is a '' @ species self"

section \<open>routers/get\_router.py\<close>

definition AnimalService :: Animal where
  "AnimalService = Animal_init ''Simba'' ''Lion''"

text \<open>
  The module defines two functions called \<^verbatim>\<open>read_root\<close>; each is registered by its
  decorator at the moment it is defined, the first under \<^verbatim>\<open>/\<close> and the second under
  \<^verbatim>\<open>/Animal\<close>. The second is named \<open>read_root_Animal\<close> here.
\<close>

definition read_root :: py_value where
  "read_root = PyDict [(''message'', PyStr ''Hello, World!'')]"

definition read_root_Animal :: py_value where
  "read_root_Animal =
     PyDict [(''message'',
       PyDict [(''name'', PyStr (name AnimalService)),
               (''Species'', PyStr (species AnimalService))])]"

text \<open>
  \<^verbatim>\<open>read_item(item_id: int, q: str = None)\<close>: the query parameter is a string or,
  when the request has none, the default \<^verbatim>\<open>None\<close>.
\<close>

definition py_opt_str :: "string option \<Rightarrow> py_value" where
  "py_opt_str q = (case q of None \<Rightarrow> PyNone | Some s \<Rightarrow> PyStr s)"

definition read_item :: "int \<Rightarrow> string option \<Rightarrow> py_value" where
  "read_item item_id q = PyDict [(''item_id'', PyInt item_id), (''q'', py_opt_str q)]"

text \<open>
  The routes of the router, in the order of registration. A request that matched a route
  has its path parameter converted to an integer and its query parameter read by the
  framework; the endpoint is then called with them.
\<close>

datatype endpoint =
    Endpoint py_value
  | ItemEndpoint "int \<Rightarrow> string option \<Rightarrow> py_value"

definition router :: "(string \<times> endpoint) list" where
  "router =
     [(''/'', Endpoint read_root),
      (''/Animal'', Endpoint read_root_Animal),
      (''/items/{item_id}'', ItemEndpoint read_item)]"

text \<open>
  \<open>GET route item_id q\<close> is the JSON body of the response to a request that matched the
  route template \<open>route\<close>, with path parameter \<open>item_id\<close> and query parameter \<open>q\<close> (both
  ignored by an endpoint without parameters); \<open>None\<close> when the router has no such route.
\<close>

definition GET :: "string \<Rightarrow> int \<Rightarrow> string option \<Rightarrow> json option" where
  "GET route item_id q =
     (case map_of router route of
        None \<Rightarrow> None
      | Some (Endpoint body) \<Rightarrow> Some (jsonable_encoder body)
      | Some (ItemEndpoint f) \<Rightarrow> Some (jsonable_encoder (f item_id q)))"

section \<open>logging\_module.py: levels, errors, records\<close>

definition NOTSET :: int where "NOTSET = 0"
definition DEBUG :: int where "DEBUG = 10"
definition INFO :: int where "INFO = 20"
definition WARNING :: int where "WARNING = 30"
definition ERROR :: int where "ERROR = 40"
definition CRITICAL :: int where "CRITICAL = 50"

text \<open>
  Exceptions are values. \<open>Full\<close> is raised by a bounded queue, \<open>ValueError\<close> by
  \<^verbatim>\<open>dictConfig\<close> when it cannot build a formatter, a handler or a logger (also when
  a file handler cannot open its file), \<open>AttributeError\<close> when an object that is not a
  handler or not a formatter is used as one.
\<close>

datatype py_error = KeyError | ValueError | AttributeError | Full

definition bind_err :: "py_error + 'a \<Rightarrow> ('a \<Rightarrow> py_error + 'b) \<Rightarrow> py_error + 'b" where
  "bind_err m f = (case m of Inl e \<Rightarrow> Inl e | Inr x \<Rightarrow> f x)"

text \<open>
  The attributes of a log record that the two format strings of this module read.
  \<open>rec_name\<close> is the attribute \<^verbatim>\<open>name\<close> (the logger's name); \<open>asctime\<close> is the
  creation time as the formatter prints it.
\<close>

record LogRecord =
  rec_name :: string
  levelno :: int
  levelname :: string
  pathname :: string
  lineno :: int
  funcName :: string
  message :: string
  asctime :: string

datatype log_filter = InfoFilter

fun InfoFilter_filter :: "log_filter \<Rightarrow> LogRecord \<Rightarrow> bool" where
  "InfoFilter_filter InfoFilter record = (levelno record = INFO)"

section \<open>Dictionaries with string keys\<close>

definition dict_get :: "(string \<times> 'v) list \<Rightarrow> string \<Rightarrow> py_error + 'v" where
  "dict_get d k = (case map_of d k of None \<Rightarrow> Inl KeyError | Some v \<Rightarrow> Inr v)"

text \<open>\<open>d[k] = v\<close>: an existing key keeps its place, a new key goes to the end.\<close>

fun dict_put :: "(string \<times> 'v) list \<Rightarrow> string \<Rightarrow> 'v \<Rightarrow> (string \<times> 'v) list" where
  "dict_put [] k v = [(k, v)]"
| "dict_put ((k', v') # d) k v = (if k' = k then (k, v) # d else (k', v') # dict_put d k v)"

text \<open>\<open>d[k]\<close> read and then changed in place: \<open>KeyError\<close> when the key is missing.\<close>

definition dict_update ::
  "string \<Rightarrow> ('v \<Rightarrow> 'v) \<Rightarrow> (string \<times> 'v) list \<Rightarrow> py_error + (string \<times> 'v) list" where
  "dict_update k f d = bind_err (dict_get d k) (\<lambda>v. Inr (dict_put d k (f v)))"

section \<open>The configuration dictionary\<close>

text \<open>
  \<^verbatim>\<open>LOGGING_CONFIG\<close> is a dictionary of dictionaries. Its top level has fixed keys
  and is a record; \<^verbatim>\<open>formatters\<close>, \<^verbatim>\<open>filters\<close>, \<^verbatim>\<open>handlers\<close> and
  \<^verbatim>\<open>loggers\<close> map names to entries and are association lists. A handler entry has
  one of the three shapes that occur in the module: class \<^verbatim>\<open>logging.StreamHandler\<close>
  (formatter, level, stream), class \<^verbatim>\<open>logging.FileHandler\<close> (level, filters,
  formatter, filename, mode; an entry without \<^verbatim>\<open>filters\<close> has the empty list), and
  factory \<^verbatim>\<open>QueueListenerHandler\<close> (an optional level, which the module's literal
  does not set, and the list \<^verbatim>\<open>handlers\<close> of references).
\<close>

record formatter_config =
  f_factory :: string
  f_format :: string

datatype filter_config = InfoFilter_class

datatype handler_config =
    StreamHandler_cfg string int string
  | FileHandler_cfg int "string list" string string string
  | QueueListenerHandler_cfg "int option" "string list"

record logger_config =
  l_handlers :: "string list"
  l_level :: int
  l_propagate :: bool

record logging_config =
  version :: nat
  disable_existing_loggers :: bool
  formatters :: "(string \<times> formatter_config) list"
  filters :: "(string \<times> filter_config) list"
  handlers :: "(string \<times> handler_config) list"
  loggers :: "(string \<times> logger_config) list"

definition LOGGING_CONFIG :: logging_config where
  "LOGGING_CONFIG =
     \<lparr>version = 1,
      disable_existing_loggers = True,
      formatters =
        [(''json'',
          \<lparr>f_factory = ''pythonjsonlogger.jsonlogger.JsonFormatter'',
           f_format = ''%(asctime)s %(name)-12s %(levelname)-4s %(message)s''\<rparr>),
         (''debug_json'',
          \<lparr>f_factory = ''pythonjsonlogger.jsonlogger.JsonFormatter'',
           f_format =
             ''%(asctime)s %(name)-12s %(levelname)-4s %(pathname)s %(lineno)d %(funcName)s %(message)s''\<rparr>)],
      filters = [(''info_filter'', InfoFilter_class)],
      handlers =
        [(''stream'', StreamHandler_cfg ''debug_json'' INFO ''ext://sys.stdout''),
         (''app_handler'',
          FileHandler_cfg INFO [''info_filter''] ''json'' ''logs/app.log'' ''a''),
         (''debug_handler'',
          FileHandler_cfg DEBUG [] ''debug_json'' ''logs/debug.log'' ''a''),
         (''error_handler'',
          FileHandler_cfg WARNING [] ''debug_json'' ''logs/errors.log'' ''a''),
         (''queue_handler'',
          QueueListenerHandler_cfg None
            [''cfg://handlers.app_handler'', ''cfg://handlers.error_handler''])],
      loggers =
        [([], \<lparr>l_handlers = [''queue_handler''], l_level = INFO, l_propagate = False\<rparr>)]\<rparr>"

text \<open>\<open>entry['level'] = level\<close> on a handler entry.\<close>

fun set_level :: "int \<Rightarrow> handler_config \<Rightarrow> handler_config" where
  "set_level lv (StreamHandler_cfg fm _ sm) = StreamHandler_cfg fm lv sm"
| "set_level lv (FileHandler_cfg _ fs fm fn md) = FileHandler_cfg lv fs fm fn md"
| "set_level lv (QueueListenerHandler_cfg _ hs) = QueueListenerHandler_cfg (Some lv) hs"

text \<open>\<open>entry['handlers']\<close> on a handler entry: only the queue handler has the key.\<close>

fun get_handlers :: "handler_config \<Rightarrow> py_error + string list" where
  "get_handlers (QueueListenerHandler_cfg _ hs) = Inr hs"
| "get_handlers _ = Inl KeyError"

fun append_handler :: "string \<Rightarrow> handler_config \<Rightarrow> handler_config" where
  "append_handler r (QueueListenerHandler_cfg lv hs) = QueueListenerHandler_cfg lv (hs @ [r])"
| "append_handler r c = c"

text \<open>
  The statements of \<^verbatim>\<open>init\<close> before the call of \<^verbatim>\<open>dictConfig\<close>, in their order.
  The root logger is the entry of \<^verbatim>\<open>loggers\<close> under the empty name \<open>[]\<close>. The
  parameter \<open>app_name\<close> is not read. The queue handler's list is looked up only when
  \<open>level = DEBUG\<close>, and the root logger's handler list only when \<open>console\<close> holds, as
  Python's \<^verbatim>\<open>and\<close> evaluates its right operand only then.
\<close>

definition init_config ::
  "string \<Rightarrow> int \<Rightarrow> bool \<Rightarrow> bool \<Rightarrow> bool \<Rightarrow> logging_config \<Rightarrow> py_error + logging_config" where
  "init_config app_name level disable_existing propagate console cfg =
     bind_err (dict_update ''stream'' (set_level level) (handlers cfg)) (\<lambda>hs1.
     bind_err (dict_update [] (\<lambda>l. l\<lparr>l_level := level\<rparr>) (loggers cfg)) (\<lambda>ls1.
     bind_err
       (if level = DEBUG then
          bind_err (dict_get hs1 ''queue_handler'') (\<lambda>qh.
          bind_err (get_handlers qh) (\<lambda>refs.
            if ''cfg://handlers.debug_handler'' \<notin> set refs
            then dict_update ''queue_handler''
                   (append_handler ''cfg://handlers.debug_handler'') hs1
            else Inr hs1))
        else Inr hs1) (\<lambda>hs2.
     bind_err
       (if console then
          bind_err (dict_get ls1 []) (\<lambda>root.
            if ''stream'' \<notin> set (l_handlers root)
            then dict_update [] (\<lambda>l. l\<lparr>l_handlers := l_handlers l @ [''stream'']\<rparr>) ls1
            else Inr ls1)
        else Inr ls1) (\<lambda>ls2.
     bind_err (dict_update [] (\<lambda>l. l\<lparr>l_propagate := propagate\<rparr>) ls2) (\<lambda>ls3.
     Inr (cfg\<lparr>handlers := hs2, loggers := ls3,
              disable_existing_loggers := disable_existing\<rparr>))))))"

section \<open>Formatters\<close>

text \<open>
  Both formatters are \<^verbatim>\<open>JsonFormatter\<close>s of the library
  \<^verbatim>\<open>pythonjsonlogger\<close>. Such a formatter reads its field names off the format
  string, every non-empty text between \<^verbatim>\<open>%(\<close> and the next \<^verbatim>\<open>)\<close>, and prints a
  record as one JSON object with these fields, in this order, a repeated field once.
  The scanner below reads the format string from left to right: outside a field, after a
  percent sign, or inside a field with the characters read so far.
\<close>

datatype scan = Outside | Percent | Field string

fun parse_from :: "scan \<Rightarrow> string \<Rightarrow> string list" where
  "parse_from s [] = []"
| "parse_from Outside (c # cs) =
     (if c = CHR ''%'' then parse_from Percent cs else parse_from Outside cs)"
| "parse_from Percent (c # cs) =
     (if c = CHR ''('' then parse_from (Field []) cs
      else if c = CHR ''%'' then parse_from Percent cs
      else parse_from Outside cs)"
| "parse_from (Field f) (c # cs) =
     (if c = CHR '')'' \<and> f \<noteq> [] then f # parse_from Outside cs
      else parse_from (Field (f @ [c])) cs)"

definition JsonFormatter_parse :: "string \<Rightarrow> string list" where
  "JsonFormatter_parse fmt = parse_from Outside fmt"

text \<open>
  \<open>record_get r f\<close> is the attribute \<open>f\<close> of the record, \<^verbatim>\<open>None\<close> (JSON
  \<^verbatim>\<open>null\<close>) for a name that is not one of the modelled attributes. A record made by
  \<^verbatim>\<open>logger.debug\<close> and its siblings carries no attributes of the caller's own.
\<close>

definition record_get :: "LogRecord \<Rightarrow> string \<Rightarrow> json" where
  "record_get r f =
     (if f = ''asctime'' then JStr (asctime r)
      else if f = ''name'' then JStr (rec_name r)
      else if f = ''levelno'' then JNum (levelno r)
      else if f = ''levelname'' then JStr (levelname r)
      else if f = ''pathname'' then JStr (pathname r)
      else if f = ''lineno'' then JNum (lineno r)
      else if f = ''funcName'' then JStr (funcName r)
      else if f = ''message'' then JStr (message r)
      else JNull)"

definition JsonFormatter_format :: "string \<Rightarrow> LogRecord \<Rightarrow> (string \<times> json) list" where
  "JsonFormatter_format fmt r =
     fold (\<lambda>f d. dict_put d f (record_get r f)) (JsonFormatter_parse fmt) []"

section \<open>Handlers, queues and the state of the process\<close>

text \<open>
  A line that a handler writes is a JSON object, or the bare message when the handler has
  no formatter. A handler writes to the standard output, the standard error or a file.
\<close>

datatype line = Json "(string \<times> json) list" | Text string

datatype sink = Stdout | Stderr | File string

text \<open>
  \<open>NotAFormatter\<close> is a plain string installed where a formatter object belongs, which
  is what \<^verbatim>\<open>_resolve_handlers\<close> does with the name it finds under
  \<^verbatim>\<open>formatter\<close>.
\<close>

datatype formatter = JsonFormatter string | NotAFormatter string

record stream_handler =
  h_level :: int
  h_filters :: "log_filter list"
  h_formatter :: "formatter option"
  h_stream :: sink

text \<open>
  What indexing the list of references of the queue handler yields: a handler object, the
  dictionary of a handler that is not built yet, or a string that is no reference.
\<close>

datatype 'h item = Inst 'h | Dict handler_config | Str string

text \<open>
  A handler object is a \<^verbatim>\<open>StreamHandler\<close> (a \<^verbatim>\<open>FileHandler\<close> is one whose
  stream is a file) or a \<^verbatim>\<open>QueueListenerHandler\<close>: its level, the reference of its
  queue, the handlers of its listener, \<^verbatim>\<open>respect_handler_level\<close>, and whether the
  listener thread was started.
\<close>

datatype handler =
    StreamHandler stream_handler
  | QueueListenerHandler int nat "handler item list" bool bool

fun handler_level :: "handler \<Rightarrow> int" where
  "handler_level (StreamHandler h) = h_level h"
| "handler_level (QueueListenerHandler lv q hs resp started) = lv"

fun setLevel :: "int \<Rightarrow> handler \<Rightarrow> handler" where
  "setLevel lv (StreamHandler h) = StreamHandler (h\<lparr>h_level := lv\<rparr>)"
| "setLevel lv (QueueListenerHandler _ q hs resp started) =
     QueueListenerHandler lv q hs resp started"

text \<open>\<^verbatim>\<open>queue.Queue(maxsize)\<close>: bounded when \<open>maxsize\<close> is positive.\<close>

record Queue =
  maxsize :: int
  q_items :: "LogRecord list"

definition put_nowait :: "LogRecord \<Rightarrow> Queue \<Rightarrow> py_error + Queue" where
  "put_nowait r q =
     (if 0 < maxsize q \<and> maxsize q \<le> int (length (q_items q)) then Inl Full
      else Inr (q\<lparr>q_items := q_items q @ [r]\<rparr>))"

text \<open>
  The thread that performs a write: the thread that called the logger, or the listener
  thread of a queue handler.
\<close>

datatype thread = Caller | Listener

text \<open>
  The state of the process: the module's global \<^verbatim>\<open>LOGGING_CONFIG\<close>, the queue
  objects (a reference is an index into the list), the root logger, the directories that
  exist, and every line written so far, with the thread that wrote it and where.
\<close>

record py_state =
  config :: logging_config
  queues :: "Queue list"
  root_level :: int
  root_handlers :: "handler list"
  root_propagate :: bool
  dirs :: "string list"
  written :: "(thread \<times> sink \<times> line) list"

text \<open>
  The default value of the parameter \<^verbatim>\<open>queue\<close> of
  \<^verbatim>\<open>QueueListenerHandler.__init__\<close> is the expression \<^verbatim>\<open>Queue(1000)\<close>. Python
  evaluates it once, when the \<^verbatim>\<open>def\<close> statement runs at import: the queue object is
  allocated then, and every call that leaves the parameter out receives the same
  reference.
\<close>

definition default_queue :: nat where
  "default_queue = 0"

definition module_state :: "string list \<Rightarrow> py_state" where
  "module_state ds =
     \<lparr>config = LOGGING_CONFIG,
      queues = [\<lparr>maxsize = 1000, q_items = []\<rparr>],
      root_level = WARNING,
      root_handlers = [],
      root_propagate = True,
      dirs = ds,
      written = []\<rparr>"


subsection \<open>Emitting\<close>

definition StreamHandler_format :: "stream_handler \<Rightarrow> LogRecord \<Rightarrow> py_error + line" where
  "StreamHandler_format h r =
     (case h_formatter h of
        None \<Rightarrow> Inr (Text (message r))
      | Some (JsonFormatter fmt) \<Rightarrow> Inr (Json (JsonFormatter_format fmt r))
      | Some (NotAFormatter s) \<Rightarrow> Inl AttributeError)"

text \<open>
  An exception inside \<^verbatim>\<open>emit\<close> goes to \<^verbatim>\<open>handleError\<close>: nothing is written to
  the handler's stream and the caller sees nothing.
\<close>

definition StreamHandler_emit ::
  "thread \<Rightarrow> stream_handler \<Rightarrow> LogRecord \<Rightarrow> py_state \<Rightarrow> py_state" where
  "StreamHandler_emit t h r st =
     (case StreamHandler_format h r of
        Inl e \<Rightarrow> st
      | Inr l \<Rightarrow> st\<lparr>written := written st @ [(t, h_stream h, l)]\<rparr>)"

text \<open>
  \<^verbatim>\<open>QueueHandler.emit\<close> puts the record on the queue without waiting; a full queue
  raises \<open>Full\<close>, which \<^verbatim>\<open>handleError\<close> swallows, and the record is lost.
\<close>

definition QueueHandler_emit :: "nat \<Rightarrow> LogRecord \<Rightarrow> py_state \<Rightarrow> py_state" where
  "QueueHandler_emit q r st =
     (if q < length (queues st) then
        (case put_nowait r (queues st ! q) of
           Inl e \<Rightarrow> st
         | Inr q' \<Rightarrow> st\<lparr>queues := (queues st)[q := q']\<rparr>)
      else st)"

text \<open>\<^verbatim>\<open>Handler.handle\<close>: the handler's filters, then \<^verbatim>\<open>emit\<close>.\<close>

fun Handler_handle :: "thread \<Rightarrow> handler \<Rightarrow> LogRecord \<Rightarrow> py_state \<Rightarrow> py_state" where
  "Handler_handle t (StreamHandler h) r st =
     (if list_all (\<lambda>f. InfoFilter_filter f r) (h_filters h)
      then StreamHandler_emit t h r st else st)"
| "Handler_handle t (QueueListenerHandler lv q hs resp started) r st =
     QueueHandler_emit q r st"

subsection \<open>The logger\<close>

text \<open>
  A logger obtained by \<^verbatim>\<open>logging.getLogger(name)\<close> after \<^verbatim>\<open>init\<close> has no level
  and no handlers of its own and propagates: its effective level is the root logger's, and
  its records go to the root logger's handlers, each of which checks its own level.
\<close>

definition callHandlers :: "LogRecord \<Rightarrow> py_state \<Rightarrow> py_state" where
  "callHandlers r st =
     fold (\<lambda>h s. if handler_level h \<le> levelno r then Handler_handle Caller h r s else s)
       (root_handlers st) st"

text \<open>
  A logger is enabled for a level above the level that \<^verbatim>\<open>logging.disable\<close> set
  for the whole process, which is 0 as nothing calls it, and at or above its effective
  level.
\<close>

definition Logger_log :: "LogRecord \<Rightarrow> py_state \<Rightarrow> py_state" where
  "Logger_log r st =
     (if 0 < levelno r \<and> root_level st \<le> levelno r then callHandlers r st else st)"

text \<open>
  \<^verbatim>\<open>logger.debug(msg)\<close> on the logger \<open>lname\<close>, called at line \<open>ln\<close> of function
  \<open>fn\<close> in file \<open>path\<close> at time \<open>tm\<close>.
\<close>

definition Logger_debug ::
  "string \<Rightarrow> string \<Rightarrow> string \<Rightarrow> int \<Rightarrow> string \<Rightarrow> string \<Rightarrow> py_state \<Rightarrow> py_state" where
  "Logger_debug lname msg path ln fn tm st =
     Logger_log
       \<lparr>rec_name = lname, levelno = DEBUG, levelname = ''DEBUG'', pathname = path,
        lineno = ln, funcName = fn, message = msg, asctime = tm\<rparr> st"

subsection \<open>The listener\<close>

text \<open>
  \<^verbatim>\<open>QueueListener.handle\<close> offers the record to each of its handlers in turn, to a
  handler below whose level the record is only when \<^verbatim>\<open>respect_handler_level\<close> is
  off. An entry that is not a handler object has neither a level nor a \<^verbatim>\<open>handle\<close>
  method: the listener thread ends with \<open>AttributeError\<close>.
\<close>

fun QueueListener_handle_one ::
  "bool \<Rightarrow> LogRecord \<Rightarrow> handler item \<Rightarrow> py_state \<Rightarrow> py_error + py_state" where
  "QueueListener_handle_one resp r (Inst h) st =
     Inr (if \<not> resp \<or> handler_level h \<le> levelno r
          then Handler_handle Listener h r st else st)"
| "QueueListener_handle_one resp r (Dict d) st = Inl AttributeError"
| "QueueListener_handle_one resp r (Str s) st = Inl AttributeError"

definition QueueListener_handle ::
  "handler item list \<Rightarrow> bool \<Rightarrow> LogRecord \<Rightarrow> py_state \<Rightarrow> py_error + py_state" where
  "QueueListener_handle hs resp r st =
     fold (\<lambda>h acc. bind_err acc (QueueListener_handle_one resp r h)) hs (Inr st)"

definition dequeue :: "nat \<Rightarrow> py_state \<Rightarrow> (LogRecord \<times> py_state) option" where
  "dequeue q st =
     (if q < length (queues st) then
        (case q_items (queues st ! q) of
           [] \<Rightarrow> None
         | r # rs \<Rightarrow> Some (r, st\<lparr>queues := (queues st)[q := (queues st ! q)\<lparr>q_items := rs\<rparr>]\<rparr>))
      else None)"

text \<open>
  The loop of the listener thread, run for at most \<open>n\<close> records: it takes the oldest
  record off the queue and handles it. An exception ends the thread, and is the result.
\<close>

fun monitor ::
  "nat \<Rightarrow> nat \<Rightarrow> handler item list \<Rightarrow> bool \<Rightarrow> py_state \<Rightarrow> py_error + py_state" where
  "monitor 0 q hs resp st = Inr st"
| "monitor (Suc n) q hs resp st =
     (case dequeue q st of
        None \<Rightarrow> Inr st
      | Some (r, st') \<Rightarrow> bind_err (QueueListener_handle hs resp r st') (monitor n q hs resp))"

text \<open>
  \<^verbatim>\<open>QueueListenerHandler.stop\<close> puts the end mark on the queue and waits for the
  listener thread, which handles every record that was on the queue before the mark.
  Registered with \<^verbatim>\<open>atexit\<close>, it runs when the process ends.
\<close>

fun stop :: "handler \<Rightarrow> py_state \<Rightarrow> py_error + py_state" where
  "stop (QueueListenerHandler lv q hs resp started) st =
     (if started \<and> q < length (queues st)
      then monitor (length (q_items (queues st ! q))) q hs resp st
      else Inr st)"
| "stop (StreamHandler h) st = Inr st"

section \<open>Building the handlers\<close>

text \<open>
  \<^verbatim>\<open>ext://sys.stdout\<close> and \<^verbatim>\<open>ext://sys.stderr\<close> name the two standard streams;
  any other value is not a stream the model knows and makes the configuration fail.
\<close>

definition ext_convert :: "string \<Rightarrow> py_error + sink" where
  "ext_convert s =
     (if s = ''ext://sys.stdout'' then Inr Stdout
      else if s = ''ext://sys.stderr'' then Inr Stderr
      else Inl ValueError)"

text \<open>
  The body of the loop of \<^verbatim>\<open>_resolve_handlers\<close>, after the list was indexed: a
  dictionary whose class is \<^verbatim>\<open>logging.StreamHandler\<close> is turned into a stream
  handler by hand, with the dictionary's level and with the \<^emph>\<open>name\<close> of the formatter
  as its formatter; every other entry is kept as it is.
\<close>

fun resolve_item :: "handler item \<Rightarrow> py_error + handler item" where
  "resolve_item (Dict (StreamHandler_cfg fm lv sm)) =
     bind_err (ext_convert sm) (\<lambda>s.
       Inr (Inst (StreamHandler
         \<lparr>h_level = lv, h_filters = [], h_formatter = Some (NotAFormatter fm),
          h_stream = s\<rparr>)))"
| "resolve_item x = Inr x"

text \<open>
  The argument \<^verbatim>\<open>l\<close> of \<^verbatim>\<open>_resolve_handlers\<close> is a plain list, returned as it is,
  or a \<^verbatim>\<open>ConvertingList\<close>: the references together with the conversion that indexing
  applies to each.
\<close>

datatype handlers_arg =
    PlainList "handler item list"
  | ConvertingList "string \<Rightarrow> py_error + handler item" "string list"

fun resolve_handlers :: "handlers_arg \<Rightarrow> py_error + handler item list" where
  "resolve_handlers (PlainList l) = Inr l"
| "resolve_handlers (ConvertingList conv refs) =
     fold (\<lambda>ref acc.
            bind_err acc (\<lambda>resolved_handlers.
            bind_err (conv ref) (\<lambda>h.
            bind_err (resolve_item h) (\<lambda>h'. Inr (resolved_handlers @ [h'])))))
       refs (Inr [])"

text \<open>
  \<^verbatim>\<open>QueueListenerHandler.__init__(handlers, respect_handler_level, auto_run, queue)\<close>;
  \<open>queue = None\<close> stands for a call that leaves the parameter out. The handler's own
  level is \<open>NOTSET\<close>. With \<open>auto_run\<close> the listener thread is started (and its stop
  registered for the end of the process).
\<close>

definition QueueListenerHandler_init ::
  "handlers_arg \<Rightarrow> bool \<Rightarrow> bool \<Rightarrow> nat option \<Rightarrow> py_error + handler" where
  "QueueListenerHandler_init hs respect_handler_level auto_run queue =
     bind_err (resolve_handlers hs) (\<lambda>l.
       Inr (QueueListenerHandler NOTSET
              (case queue of None \<Rightarrow> default_queue | Some q \<Rightarrow> q)
              l respect_handler_level auto_run))"

section \<open>dictConfig\<close>

text \<open>
  \<^verbatim>\<open>logging.config.dictConfig\<close> builds the formatters, then the filters, then the
  handlers in the sorted order of their names, then the loggers. A name that it cannot
  resolve makes it raise \<open>ValueError\<close>, and so does any exception while a handler is
  built.
\<close>

definition lookup_cfg :: "(string \<times> 'v) list \<Rightarrow> string \<Rightarrow> py_error + 'v" where
  "lookup_cfg d k = (case map_of d k of None \<Rightarrow> Inl ValueError | Some v \<Rightarrow> Inr v)"

fun lookup_all :: "(string \<times> 'v) list \<Rightarrow> string list \<Rightarrow> py_error + 'v list" where
  "lookup_all d [] = Inr []"
| "lookup_all d (k # ks) =
     bind_err (lookup_cfg d k) (\<lambda>v. bind_err (lookup_all d ks) (\<lambda>vs. Inr (v # vs)))"

definition configure_formatter :: "formatter_config \<Rightarrow> py_error + formatter" where
  "configure_formatter fc =
     (if f_factory fc = ''pythonjsonlogger.jsonlogger.JsonFormatter''
      then Inr (JsonFormatter (f_format fc)) else Inl ValueError)"

fun configure_formatters ::
  "(string \<times> formatter_config) list \<Rightarrow> py_error + (string \<times> formatter) list" where
  "configure_formatters [] = Inr []"
| "configure_formatters ((n, fc) # rest) =
     bind_err (configure_formatter fc) (\<lambda>f.
     bind_err (configure_formatters rest) (\<lambda>fs. Inr ((n, f) # fs)))"

fun configure_filter :: "filter_config \<Rightarrow> log_filter" where
  "configure_filter InfoFilter_class = InfoFilter"

text \<open>
  A file handler opens its file for appending when it is built. That creates the file,
  and fails when the directory of the file does not exist. The directory is the text
  before the last slash; a name without a slash is in the working directory.
\<close>

definition dirname :: "string \<Rightarrow> string" where
  "dirname p = rev (drop 1 (dropWhile (\<lambda>c. c \<noteq> CHR ''/'') (rev p)))"

definition can_open :: "string list \<Rightarrow> string \<Rightarrow> bool" where
  "can_open ds p = (dirname p = [] \<or> dirname p \<in> set ds)"

text \<open>
  A reference \<^verbatim>\<open>cfg://handlers.NAME\<close> is the entry \<^verbatim>\<open>NAME\<close> of the handlers as it
  is at that moment: the handler object when the handler is already built (\<open>env\<close> holds
  the handlers built so far), its dictionary otherwise. A string without this prefix is
  kept as a string.
\<close>

definition cfg_convert ::
  "logging_config \<Rightarrow> (string \<times> handler) list \<Rightarrow> string \<Rightarrow> py_error + handler item" where
  "cfg_convert cfg env ref =
     (if take 15 ref = ''cfg://handlers.'' then
        (case map_of env (drop 15 ref) of
           Some h \<Rightarrow> Inr (Inst h)
         | None \<Rightarrow>
             (case map_of (handlers cfg) (drop 15 ref) of
                Some d \<Rightarrow> Inr (Dict d)
              | None \<Rightarrow> Inl KeyError))
      else Inr (Str ref))"

text \<open>
  The formatter of a handler entry: none when the name is empty, the formatter of that
  name otherwise.
\<close>

definition lookup_formatter ::
  "(string \<times> formatter) list \<Rightarrow> string \<Rightarrow> py_error + formatter option" where
  "lookup_formatter fms fm =
     (if fm = [] then Inr None else bind_err (lookup_cfg fms fm) (\<lambda>f. Inr (Some f)))"

fun configure_handler ::
  "logging_config \<Rightarrow> (string \<times> formatter) list \<Rightarrow> (string \<times> log_filter) list \<Rightarrow>
   string list \<Rightarrow> (string \<times> handler) list \<Rightarrow> handler_config \<Rightarrow> py_error + handler" where
  "configure_handler cfg fms fls ds env (StreamHandler_cfg fm lv sm) =
     bind_err (lookup_formatter fms fm) (\<lambda>f.
     bind_err (ext_convert sm) (\<lambda>s.
       Inr (StreamHandler
         \<lparr>h_level = lv, h_filters = [], h_formatter = f, h_stream = s\<rparr>)))"
| "configure_handler cfg fms fls ds env (FileHandler_cfg lv fs fm fn md) =
     bind_err (lookup_formatter fms fm) (\<lambda>f.
     bind_err (lookup_all fls fs) (\<lambda>flts.
       if can_open ds fn
       then Inr (StreamHandler
         \<lparr>h_level = lv, h_filters = flts, h_formatter = f, h_stream = File fn\<rparr>)
       else Inl ValueError))"
| "configure_handler cfg fms fls ds env (QueueListenerHandler_cfg lv refs) =
     bind_err (QueueListenerHandler_init (ConvertingList (cfg_convert cfg env) refs)
                 True True None) (\<lambda>h.
       Inr (case lv of None \<Rightarrow> h | Some l \<Rightarrow> setLevel l h))"

definition configure_handlers ::
  "logging_config \<Rightarrow> (string \<times> formatter) list \<Rightarrow> (string \<times> log_filter) list \<Rightarrow>
   string list \<Rightarrow> py_error + (string \<times> handler) list" where
  "configure_handlers cfg fms fls ds =
     fold (\<lambda>n acc.
            bind_err acc (\<lambda>env.
            bind_err (lookup_cfg (handlers cfg) n) (\<lambda>hc.
            (case configure_handler cfg fms fls ds env hc of
               Inl e \<Rightarrow> Inl ValueError
             | Inr h \<Rightarrow> Inr (env @ [(n, h)])))))
       (sort (map fst (handlers cfg))) (Inr [])"

text \<open>
  The entry of \<^verbatim>\<open>loggers\<close> under the empty name configures the root logger: its
  level, its handlers (replacing those it had) and its \<^verbatim>\<open>propagate\<close> flag.
\<close>

definition dictConfig :: "logging_config \<Rightarrow> py_state \<Rightarrow> py_error + py_state" where
  "dictConfig cfg st =
     bind_err (configure_formatters (formatters cfg)) (\<lambda>fms.
     bind_err
       (configure_handlers cfg fms (map (\<lambda>(n, c). (n, configure_filter c)) (filters cfg))
          (dirs st)) (\<lambda>env.
       (case map_of (loggers cfg) [] of
          None \<Rightarrow> Inr st
        | Some lc \<Rightarrow>
            bind_err (lookup_all env (l_handlers lc)) (\<lambda>hs.
              Inr (st\<lparr>root_level := l_level lc, root_handlers := hs,
                       root_propagate := l_propagate lc\<rparr>)))))"

section \<open>init\<close>

text \<open>
  \<^verbatim>\<open>init\<close> changes the global dictionary and hands it to \<^verbatim>\<open>dictConfig\<close>. No
  caller in the repository catches an exception of \<^verbatim>\<open>init\<close>, so the state after a
  failure is not kept.
\<close>

definition init ::
  "string \<Rightarrow> int \<Rightarrow> bool \<Rightarrow> bool \<Rightarrow> bool \<Rightarrow> py_state \<Rightarrow> py_error + py_state" where
  "init app_name level disable_existing propagate console st =
     bind_err (init_config app_name level disable_existing propagate console (config st))
       (\<lambda>cfg. dictConfig cfg (st\<lparr>config := cfg\<rparr>))"

section \<open>Client programs\<close>

text \<open>
  What a client of the module does, one action after the other: it calls \<^verbatim>\<open>init\<close>,
  it logs a record through a logger, and the listener threads of the queue handlers on
  the root logger run until their queues are empty (at the latest when the process ends,
  where the registered \<^verbatim>\<open>stop\<close> waits for exactly that).

  Every call of \<^verbatim>\<open>init\<close> builds new handlers and a new listener. \<open>Drain\<close> runs
  the listeners of the handlers that are on the root logger at that moment; a listener
  that an earlier call of \<^verbatim>\<open>init\<close> started, and that in the process lives on
  until its end, is not followed.
\<close>

datatype action =
    Init string int bool bool bool
  | Log LogRecord
  | Drain

fun step :: "action \<Rightarrow> py_state \<Rightarrow> py_error + py_state" where
  "step (Init app_name level disable_existing propagate console) st =
     init app_name level disable_existing propagate console st"
| "step (Log r) st = Inr (Logger_log r st)"
| "step Drain st = fold (\<lambda>h acc. bind_err acc (stop h)) (root_handlers st) (Inr st)"

fun run :: "action list \<Rightarrow> py_state \<Rightarrow> py_error + py_state" where
  "run [] st = Inr st"
| "run (a # as) st = bind_err (step a st) (run as)"

text \<open>
  \<^verbatim>\<open>test_Logging.py\<close>: \<^verbatim>\<open>init("test", level=logging.DEBUG)\<close> with the defaults of
  the other parameters, then \<^verbatim>\<open>logger.debug("hello first error")\<close> on the logger of
  the script; the process ends and the listener empties the queue. The script's path
  and the time of the call are parameters.
\<close>

definition test_Logging :: "string \<Rightarrow> string \<Rightarrow> string list \<Rightarrow> py_error + py_state" where
  "test_Logging path tm ds =
     bind_err (init ''test'' DEBUG False False True (module_state ds)) (\<lambda>st.
       step Drain
         (Logger_debug ''__main__'' ''hello first error'' path 18 ''<module>'' tm st))"

subsection \<open>Observations\<close>

text \<open>The lines written to a sink, oldest first.\<close>

definition lines_of :: "sink \<Rightarrow> py_state \<Rightarrow> line list" where
  "lines_of s st = map (\<lambda>(t, s', l). l) (filter (\<lambda>(t, s', l). s' = s) (written st))"

text \<open>The field names of a line that is a JSON object.\<close>

fun field_names :: "line \<Rightarrow> string list option" where
  "field_names (Json kvs) = Some (map fst kvs)"
| "field_names (Text s) = None"

text \<open>The handler is a stream handler that writes to the standard output.\<close>

fun is_console :: "handler \<Rightarrow> bool" where
  "is_console (StreamHandler h) = (h_stream h = Stdout)"
| "is_console (QueueListenerHandler lv q hs resp started) = False"

fun is_queue_handler :: "handler \<Rightarrow> bool" where
  "is_queue_handler (StreamHandler h) = False"
| "is_queue_handler (QueueListenerHandler lv q hs resp started) = True"

text \<open>The references in the list of the queue handler's entry of a configuration.\<close>

definition queue_refs :: "logging_config \<Rightarrow> string list" where
  "queue_refs cfg =
     (case map_of (handlers cfg) ''queue_handler'' of
        Some (QueueListenerHandler_cfg lv refs) \<Rightarrow> refs
      | _ \<Rightarrow> [])"

text \<open>Some call of \<^verbatim>\<open>init\<close> among the actions passed \<open>console=True\<close>.\<close>

fun console_requested :: "action list \<Rightarrow> bool" where
  "console_requested [] = False"
| "console_requested (Init app_name level disable_existing propagate console # as) =
     (console \<or> console_requested as)"
| "console_requested (a # as) = console_requested as"

subsection \<open>The configurations and handlers that init produces\<close>

text \<open>
  \<^verbatim>\<open>init\<close> only ever changes the level of the stream entry and of the root logger,
  the two flags, and the two lists, each of which it extends at most once. The
  configuration is therefore the module's literal up to five values: the level, the two
  flags, whether the debug handler was added, whether the stream handler was attached.
\<close>

definition shaped_config :: "int \<Rightarrow> bool \<Rightarrow> bool \<Rightarrow> bool \<Rightarrow> bool \<Rightarrow> logging_config" where
  "shaped_config lvl dis prop dbg con =
     LOGGING_CONFIG
       \<lparr>disable_existing_loggers := dis,
        handlers :=
          [(''stream'', StreamHandler_cfg ''debug_json'' lvl ''ext://sys.stdout''),
           (''app_handler'',
            FileHandler_cfg INFO [''info_filter''] ''json'' ''logs/app.log'' ''a''),
           (''debug_handler'',
            FileHandler_cfg DEBUG [] ''debug_json'' ''logs/debug.log'' ''a''),
           (''error_handler'',
            FileHandler_cfg WARNING [] ''debug_json'' ''logs/errors.log'' ''a''),
           (''queue_handler'',
            QueueListenerHandler_cfg None
              ([''cfg://handlers.app_handler'', ''cfg://handlers.error_handler'']
               @ (if dbg then [''cfg://handlers.debug_handler''] else [])))],
        loggers :=
          [([], \<lparr>l_handlers = [''queue_handler''] @ (if con then [''stream''] else []),
                 l_level = lvl, l_propagate = prop\<rparr>)]\<rparr>"

definition json_format :: string where
  "json_format = ''%(asctime)s %(name)-12s %(levelname)-4s %(message)s''"

definition debug_json_format :: string where
  "debug_json_format =
     ''%(asctime)s %(name)-12s %(levelname)-4s %(pathname)s %(lineno)d %(funcName)s %(message)s''"

definition app_handler :: stream_handler where
  "app_handler =
     \<lparr>h_level = INFO, h_filters = [InfoFilter],
      h_formatter = Some (JsonFormatter json_format), h_stream = File ''logs/app.log''\<rparr>"

definition error_handler :: stream_handler where
  "error_handler =
     \<lparr>h_level = WARNING, h_filters = [],
      h_formatter = Some (JsonFormatter debug_json_format),
      h_stream = File ''logs/errors.log''\<rparr>"

definition debug_handler :: stream_handler where
  "debug_handler =
     \<lparr>h_level = DEBUG, h_filters = [],
      h_formatter = Some (JsonFormatter debug_json_format),
      h_stream = File ''logs/debug.log''\<rparr>"

definition stream_handler_at :: "int \<Rightarrow> stream_handler" where
  "stream_handler_at lvl =
     \<lparr>h_level = lvl, h_filters = [],
      h_formatter = Some (JsonFormatter debug_json_format), h_stream = Stdout\<rparr>"

definition listener_handlers :: "bool \<Rightarrow> handler item list" where
  "listener_handlers dbg =
     [Inst (StreamHandler app_handler), Inst (StreamHandler error_handler)]
     @ (if dbg then [Inst (StreamHandler debug_handler)] else [])"

definition built_handlers :: "int \<Rightarrow> bool \<Rightarrow> bool \<Rightarrow> handler list" where
  "built_handlers lvl dbg con =
     [QueueListenerHandler NOTSET default_queue (listener_handlers dbg) True True]
     @ (if con then [StreamHandler (stream_handler_at lvl)] else [])"

subsection \<open>What one record makes the handlers write\<close>

text \<open>
  The lines that the listener's handlers write for a record, in the order of the
  handlers: the application log takes a record of level \<open>INFO\<close> exactly, the error log
  one of level \<open>WARNING\<close> or above, and the debug log, when it is among the handlers
  (\<open>dbg\<close>), one of level \<open>DEBUG\<close> or above.
\<close>

definition listener_writes :: "bool \<Rightarrow> LogRecord \<Rightarrow> (thread \<times> sink \<times> line) list" where
  "listener_writes dbg r =
     (if levelno r = INFO
      then [(Listener, File ''logs/app.log'', Json (JsonFormatter_format json_format r))]
      else [])
     @ (if WARNING \<le> levelno r
        then [(Listener, File ''logs/errors.log'',
               Json (JsonFormatter_format debug_json_format r))]
        else [])
     @ (if dbg \<and> DEBUG \<le> levelno r
        then [(Listener, File ''logs/debug.log'',
               Json (JsonFormatter_format debug_json_format r))]
        else [])"

text \<open>
  The line that the stream handler on the root logger writes for a record: one, when the
  handler is attached (\<open>con\<close>) and the record passes the logger and reaches the
  handler's level, which \<^verbatim>\<open>init\<close> makes the same.
\<close>

definition caller_writes :: "int \<Rightarrow> bool \<Rightarrow> LogRecord \<Rightarrow> (thread \<times> sink \<times> line) list" where
  "caller_writes lvl con r =
     (if con \<and> 0 < levelno r \<and> lvl \<le> levelno r
      then [(Caller, Stdout, Json (JsonFormatter_format debug_json_format r))] else [])"

definition json_fields :: "string list" where
  "json_fields = [''asctime'', ''name'', ''levelname'', ''message'']"

definition debug_json_fields :: "string list" where
  "debug_json_fields =
     [''asctime'', ''name'', ''levelname'', ''pathname'', ''lineno'', ''funcName'', ''message'']"

text \<open>
  A write is well routed: the console is written by the calling thread and the three
  files by the listener thread, each with the fields of its formatter.
\<close>

fun well_routed :: "thread \<times> sink \<times> line \<Rightarrow> bool" where
  "well_routed (t, s, l) =
     (if s = Stdout then t = Caller \<and> field_names l = Some debug_json_fields
      else if s = File ''logs/app.log'' then t = Listener \<and> field_names l = Some json_fields
      else if s = File ''logs/errors.log'' \<or> s = File ''logs/debug.log''
        then t = Listener \<and> field_names l = Some debug_json_fields
      else False)"

text \<open>
  The invariant of the process: the configuration is a shaped one; the root logger has
  no handlers yet (no \<^verbatim>\<open>init\<close> has run, and the stream handler is not in the
  configuration) or the handlers built from the configuration; the default queue exists
  and holds at most 1000 records; every write so far is well routed.
\<close>

definition state_ok :: "int \<Rightarrow> bool \<Rightarrow> bool \<Rightarrow> bool \<Rightarrow> bool \<Rightarrow> py_state \<Rightarrow> bool" where
  "state_ok l d p dbg con st =
     (config st = shaped_config l d p dbg con
      \<and> (root_handlers st = [] \<and> \<not> con
         \<or> root_handlers st = built_handlers l dbg con \<and> root_level st = l)
      \<and> default_queue < length (queues st)
      \<and> maxsize (queues st ! default_queue) = 1000
      \<and> list_all well_routed (written st))"


text \<open>
  The state after a successful \<^verbatim>\<open>init\<close>, with the records \<open>rs\<close> on the default
  queue and the writes \<open>ws\<close> made so far.
\<close>

definition built_state ::
  "string list \<Rightarrow> int \<Rightarrow> bool \<Rightarrow> bool \<Rightarrow> bool \<Rightarrow> bool \<Rightarrow> LogRecord list \<Rightarrow>
   (thread \<times> sink \<times> line) list \<Rightarrow> py_state" where
  "built_state ds l d p dbg con rs ws =
     \<lparr>config = shaped_config l d p dbg con,
      queues = [\<lparr>maxsize = 1000, q_items = rs\<rparr>],
      root_level = l,
      root_handlers = built_handlers l dbg con,
      root_propagate = p,
      dirs = ds,
      written = ws\<rparr>"

section \<open>The HTTP endpoints\<close>

text \<open>
  Claim C7. Whatever the request carries, \<^verbatim>\<open>GET /Animal\<close> answers with the body
  \<^verbatim>\<open>{"message": {"name": "Simba", "Species": "Lion"}}\<close>.
\<close>

theorem get_Animal_body:
  "GET ''/Animal'' item_id q =
     Some (JObject [(''message'',
             JObject [(''name'', JStr ''Simba''), (''Species'', JStr ''Lion'')])])"
  by (simp add: GET_def router_def read_root_Animal_def AnimalService_def Animal_init_def)

text \<open>
  Claim C8. For every integer \<open>item_id\<close>, \<^verbatim>\<open>GET /items/{item_id}\<close> answers with the
  object of \<open>item_id\<close> and \<^verbatim>\<open>null\<close> for \<open>q\<close> when the request has no query
  parameter, and with \<open>item_id\<close> and the string itself when it has one; so for 42 without
  a query and for 42 with \<^verbatim>\<open>q=foo\<close>.
\<close>

theorem get_items_body:
  "GET ''/items/{item_id}'' item_id None =
     Some (JObject [(''item_id'', JNum item_id), (''q'', JNull)])
   \<and> GET ''/items/{item_id}'' item_id (Some s) =
     Some (JObject [(''item_id'', JNum item_id), (''q'', JStr s)])
   \<and> GET ''/items/{item_id}'' 42 None =
     Some (JObject [(''item_id'', JNum 42), (''q'', JNull)])
   \<and> GET ''/items/{item_id}'' 42 (Some ''foo'') =
     Some (JObject [(''item_id'', JNum 42), (''q'', JStr ''foo'')])"
  by (simp add: GET_def router_def read_item_def py_opt_str_def)

section \<open>init and the configuration\<close>

text \<open>
  Claim C10. The effect of \<^verbatim>\<open>init\<close> does not depend on \<open>app_name\<close>: two calls
  that differ only in it, from the same state, fail alike or leave the same state, that
  is the same configuration dictionary, root logger, handlers, queues and output.
\<close>

theorem init_ignores_app_name:
  "init a1 level disable_existing propagate console st =
   init a2 level disable_existing propagate console st"
  by (simp add: init_def init_config_def)

lemma LOGGING_CONFIG_shaped: "LOGGING_CONFIG = shaped_config INFO True False False False"
  by (simp add: shaped_config_def LOGGING_CONFIG_def)

lemma init_config_shaped:
  "init_config a lvl d p c (shaped_config l0 d0 p0 dbg con)
     = Inr (shaped_config lvl d p (dbg \<or> lvl = DEBUG) (con \<or> c))"
  by (simp add: init_config_def shaped_config_def LOGGING_CONFIG_def dict_update_def
      dict_get_def bind_err_def)

lemma sorted_handler_names:
  "sort (map fst (handlers (shaped_config lvl d p dbg con)))
     = [''app_handler'', ''debug_handler'', ''error_handler'', ''queue_handler'', ''stream'']"
  by (simp add: shaped_config_def LOGGING_CONFIG_def)

section \<open>Evaluating the configuration\<close>

lemma formatters_shaped:
  "configure_formatters (formatters (shaped_config lvl d p dbg con))
     = Inr [(''json'', JsonFormatter json_format), (''debug_json'', JsonFormatter debug_json_format)]"
  by (simp add: shaped_config_def LOGGING_CONFIG_def configure_formatter_def bind_err_def
      json_format_def debug_json_format_def)

lemma can_open_logs:
  "can_open ds ''logs/app.log'' = (''logs'' \<in> set ds)"
  "can_open ds ''logs/debug.log'' = (''logs'' \<in> set ds)"
  "can_open ds ''logs/errors.log'' = (''logs'' \<in> set ds)"
  by (simp_all add: can_open_def dirname_def)

lemma handlers_shaped:
  assumes "''logs'' \<in> set ds"
  shows "configure_handlers (shaped_config lvl d p dbg con)
       [(''json'', JsonFormatter json_format), (''debug_json'', JsonFormatter debug_json_format)]
       [(''info_filter'', InfoFilter)] ds
     = Inr [(''app_handler'', StreamHandler app_handler),
            (''debug_handler'', StreamHandler debug_handler),
            (''error_handler'', StreamHandler error_handler),
            (''queue_handler'', QueueListenerHandler NOTSET default_queue (listener_handlers dbg) True True),
            (''stream'', StreamHandler (stream_handler_at lvl))]"
  unfolding configure_handlers_def sorted_handler_names
  using assms
  by (simp add: shaped_config_def LOGGING_CONFIG_def bind_err_def lookup_cfg_def
      lookup_formatter_def can_open_logs
      ext_convert_def QueueListenerHandler_init_def cfg_convert_def
      app_handler_def debug_handler_def error_handler_def stream_handler_at_def listener_handlers_def)

lemma handlers_shaped_fail:
  assumes "''logs'' \<notin> set ds"
  shows "configure_handlers (shaped_config lvl d p dbg con)
       [(''json'', JsonFormatter json_format), (''debug_json'', JsonFormatter debug_json_format)]
       [(''info_filter'', InfoFilter)] ds
     = Inl ValueError"
  unfolding configure_handlers_def sorted_handler_names
  using assms
  by (simp add: shaped_config_def LOGGING_CONFIG_def bind_err_def lookup_cfg_def
      lookup_formatter_def can_open_logs
      ext_convert_def QueueListenerHandler_init_def cfg_convert_def)

lemma filters_shaped:
  "map (\<lambda>(n, c). (n, configure_filter c)) (filters (shaped_config lvl d p dbg con))
     = [(''info_filter'', InfoFilter)]"
  by (simp add: shaped_config_def LOGGING_CONFIG_def)

lemma loggers_shaped:
  "loggers (shaped_config lvl d p dbg con) =
     [([], \<lparr>l_handlers = [''queue_handler''] @ (if con then [''stream''] else []),
            l_level = lvl, l_propagate = p\<rparr>)]"
  by (simp add: shaped_config_def LOGGING_CONFIG_def)

lemma dictConfig_shaped:
  "dictConfig (shaped_config lvl d p dbg con) st =
     (if ''logs'' \<in> set (dirs st)
      then Inr (st\<lparr>root_level := lvl, root_handlers := built_handlers lvl dbg con,
                   root_propagate := p\<rparr>)
      else Inl ValueError)"
proof (cases "''logs'' \<in> set (dirs st)")
  case True
  show ?thesis unfolding dictConfig_def formatters_shaped filters_shaped
    using True by (simp add: bind_err_def handlers_shaped loggers_shaped lookup_cfg_def
        built_handlers_def)
next
  case False
  show ?thesis unfolding dictConfig_def formatters_shaped filters_shaped
    using False by (simp add: bind_err_def handlers_shaped_fail)
qed

lemma init_shaped:
  assumes "config st = shaped_config l0 d0 p0 dbg con"
  shows "init a lvl d p c st =
     (if ''logs'' \<in> set (dirs st)
      then Inr (st\<lparr>config := shaped_config lvl d p (dbg \<or> lvl = DEBUG) (con \<or> c),
                   root_level := lvl,
                   root_handlers := built_handlers lvl (dbg \<or> lvl = DEBUG) (con \<or> c),
                   root_propagate := p\<rparr>)
      else Inl ValueError)"
  by (simp add: init_def assms init_config_shaped bind_err_def dictConfig_shaped)

lemma parse_json_format:
  "JsonFormatter_parse json_format = [''asctime'', ''name'', ''levelname'', ''message'']"
  by (simp add: JsonFormatter_parse_def json_format_def)

lemma parse_debug_json_format:
  "JsonFormatter_parse debug_json_format =
     [''asctime'', ''name'', ''levelname'', ''pathname'', ''lineno'', ''funcName'', ''message'']"
  by (simp add: JsonFormatter_parse_def debug_json_format_def)

lemma format_json:
  "JsonFormatter_format json_format r =
     [(''asctime'', JStr (asctime r)), (''name'', JStr (rec_name r)),
      (''levelname'', JStr (levelname r)), (''message'', JStr (message r))]"
  by (simp add: JsonFormatter_format_def parse_json_format record_get_def)

lemma format_debug_json:
  "JsonFormatter_format debug_json_format r =
     [(''asctime'', JStr (asctime r)), (''name'', JStr (rec_name r)),
      (''levelname'', JStr (levelname r)), (''pathname'', JStr (pathname r)),
      (''lineno'', JNum (lineno r)), (''funcName'', JStr (funcName r)),
      (''message'', JStr (message r))]"
  by (simp add: JsonFormatter_format_def parse_debug_json_format record_get_def)

lemma handle_listener:
  "QueueListener_handle (listener_handlers dbg) True r st
     = Inr (st\<lparr>written := written st @ listener_writes dbg r\<rparr>)"
  by (simp add: QueueListener_handle_def listener_handlers_def listener_writes_def bind_err_def
      app_handler_def error_handler_def debug_handler_def StreamHandler_emit_def
      StreamHandler_format_def INFO_def WARNING_def DEBUG_def)

lemma log_built:
  assumes "root_handlers st = built_handlers lvl dbg con" "root_level st = lvl"
  shows "Logger_log r st =
     (if 0 < levelno r \<and> lvl \<le> levelno r
      then (QueueHandler_emit default_queue r st)
             \<lparr>written := written st @ caller_writes lvl con r\<rparr>
      else st)"
  using assms
  by (simp add: Logger_log_def callHandlers_def built_handlers_def caller_writes_def
      stream_handler_at_def StreamHandler_emit_def StreamHandler_format_def QueueHandler_emit_def
      NOTSET_def split: sum.splits)

lemma monitor_listener:
  assumes "q < length (queues st)"
  shows "monitor n q (listener_handlers dbg) True st =
     Inr (st\<lparr>queues := (queues st)[q := (queues st ! q)\<lparr>q_items := drop n (q_items (queues st ! q))\<rparr>],
             written := written st @ concat (map (listener_writes dbg) (take n (q_items (queues st ! q))))\<rparr>)"
  using assms
proof (induction n arbitrary: st)
  case 0
  then show ?case by simp
next
  case (Suc n)
  show ?case
  proof (cases "q_items (queues st ! q)")
    case Nil
    have e: "(queues st ! q)\<lparr>q_items := []\<rparr> = queues st ! q"
      by (simp add: Nil[symmetric])
    from Suc.prems Nil show ?thesis by (simp add: dequeue_def e)
  next
    case (Cons r rs)
    let ?st1 = "st\<lparr>queues := (queues st)[q := (queues st ! q)\<lparr>q_items := rs\<rparr>]\<rparr>"
    have d: "dequeue q st = Some (r, ?st1)"
      using Suc.prems Cons by (simp add: dequeue_def)
    let ?st2 = "?st1\<lparr>written := written ?st1 @ listener_writes dbg r\<rparr>"
    have q2: "q < length (queues ?st2)" using Suc.prems by simp
    note ih = Suc.IH[OF q2]
    show ?thesis
      using Suc.prems Cons ih
      by (simp add: d handle_listener bind_err_def)
  qed
qed

section \<open>The invariant\<close>

lemma well_routed_listener: "list_all well_routed (listener_writes dbg r)"
  by (simp add: listener_writes_def format_json format_debug_json json_fields_def
      debug_json_fields_def)

lemma well_routed_caller: "list_all well_routed (caller_writes l con r)"
  by (simp add: caller_writes_def format_debug_json debug_json_fields_def)

lemma well_routed_concat:
  "list_all well_routed (concat (map (listener_writes dbg) rs))"
  by (induction rs) (simp_all add: well_routed_listener)

lemma module_state_ok: "state_ok INFO True False False False (module_state ds)"
  by (simp add: state_ok_def module_state_def LOGGING_CONFIG_shaped default_queue_def)

lemma init_ok:
  assumes "state_ok l d p dbg con st" and "init a l' d' p' c st = Inr st'"
  shows "state_ok l' d' p' (dbg \<or> l' = DEBUG) (con \<or> c) st'
         \<and> root_handlers st' = built_handlers l' (dbg \<or> l' = DEBUG) (con \<or> c)
         \<and> written st' = written st \<and> queues st' = queues st"
proof -
  from assms(1) have c: "config st = shaped_config l d p dbg con" by (simp add: state_ok_def)
  from assms(2) init_shaped[OF c, of a l' d' p' c]
  have "st' = st\<lparr>config := shaped_config l' d' p' (dbg \<or> l' = DEBUG) (con \<or> c),
                  root_level := l',
                  root_handlers := built_handlers l' (dbg \<or> l' = DEBUG) (con \<or> c),
                  root_propagate := p'\<rparr>"
    by (simp split: if_splits)
  with assms(1) show ?thesis by (simp add: state_ok_def)
qed

lemma queue_emit_frame:
  "config (QueueHandler_emit q r st) = config st"
  "root_handlers (QueueHandler_emit q r st) = root_handlers st"
  "root_level (QueueHandler_emit q r st) = root_level st"
  "written (QueueHandler_emit q r st) = written st"
  "length (queues (QueueHandler_emit q r st)) = length (queues st)"
  "maxsize (queues (QueueHandler_emit q r st) ! q) = maxsize (queues st ! q)"
  by (simp_all add: QueueHandler_emit_def put_nowait_def split: sum.splits)

lemma log_ok:
  assumes "state_ok l d p dbg con st"
  shows "state_ok l d p dbg con (Logger_log r st)"
proof (cases "root_handlers st = []")
  case True
  then have "Logger_log r st = st" by (simp add: Logger_log_def callHandlers_def)
  with assms show ?thesis by simp
next
  case False
  with assms have b: "root_handlers st = built_handlers l dbg con" "root_level st = l"
    by (auto simp: state_ok_def)
  show ?thesis using assms b
    by (simp add: log_built[OF b] state_ok_def queue_emit_frame well_routed_caller)
qed

lemma drain_ok:
  assumes "state_ok l d p dbg con st"
  shows "\<exists>st'. step Drain st = Inr st' \<and> state_ok l d p dbg con st'"
proof (cases "root_handlers st = []")
  case True
  with assms show ?thesis by simp
next
  case False
  with assms have b: "root_handlers st = built_handlers l dbg con"
    and q: "default_queue < length (queues st)"
    by (auto simp: state_ok_def)
  show ?thesis using assms b q
    by (simp add: built_handlers_def bind_err_def monitor_listener[OF q] state_ok_def
        well_routed_concat)
qed

lemma step_ok:
  assumes "state_ok l d p dbg con st" and "step a st = Inr st'"
  shows "\<exists>l' d' p' dbg'. state_ok l' d' p' dbg' (con \<or> console_requested [a]) st'"
proof (cases a)
  case (Init a1 l1 d1 p1 c1)
  with assms init_ok[OF assms(1), of a1 l1 d1 p1 c1 st'] show ?thesis by auto
next
  case (Log r)
  with assms log_ok[OF assms(1), of r] show ?thesis by auto
next
  case Drain
  with assms drain_ok[OF assms(1)] show ?thesis by auto
qed

lemma console_requested_Cons:
  "console_requested (a # as) = (console_requested [a] \<or> console_requested as)"
  by (cases a) simp_all

lemma run_ok:
  assumes "run acts st = Inr st'" and "state_ok l d p dbg con st"
  shows "\<exists>l' d' p' dbg'. state_ok l' d' p' dbg' (con \<or> console_requested acts) st'"
  using assms
proof (induction acts arbitrary: st l d p dbg con)
  case Nil
  then show ?case by auto
next
  case (Cons a as)
  from Cons.prems(1) obtain st1 where s1: "step a st = Inr st1" and r1: "run as st1 = Inr st'"
    by (auto simp: bind_err_def split: sum.splits)
  from step_ok[OF Cons.prems(2) s1] obtain l1 d1 p1 dbg1
    where ok1: "state_ok l1 d1 p1 dbg1 (con \<or> console_requested [a]) st1" by blast
  from Cons.IH[OF r1 ok1] show ?case
    using console_requested_Cons[of a as] by (simp add: disj_assoc)
qed

lemma run_module_ok:
  assumes "run acts (module_state ds) = Inr st"
  shows "\<exists>l d p dbg. state_ok l d p dbg (console_requested acts) st"
  using run_ok[OF assms module_state_ok] by simp

lemma init_module:
  "init a l d p c (module_state ds) =
     (if ''logs'' \<in> set ds
      then Inr ((module_state ds)\<lparr>config := shaped_config l d p (l = DEBUG) c,
                   root_level := l,
                   root_handlers := built_handlers l (l = DEBUG) c,
                   root_propagate := p\<rparr>)
      else Inl ValueError)"
proof -
  have c: "config (module_state ds) = shaped_config INFO True False False False"
    by (simp add: module_state_def LOGGING_CONFIG_shaped)
  show ?thesis using init_shaped[OF c, of a l d p c] by (simp add: module_state_def)
qed

lemma built_queue_handler:
  assumes "state_ok l d p dbg con st"
    and "QueueListenerHandler lv q hs resp started \<in> set (root_handlers st)"
  shows "hs = listener_handlers dbg \<and> resp \<and> started \<and> q = default_queue \<and> lv = NOTSET"
  using assms by (auto simp: state_ok_def built_handlers_def split: if_splits)

section \<open>Routing by severity\<close>

text \<open>
  Claim C1. For every record that the configured pipeline processes, that is every record
  that the listener of the queue handler on the root logger handles, in any state that a
  client program reaches: a record of level exactly \<open>INFO\<close> is written to
  \<^verbatim>\<open>app.log\<close> (one line more) and not to \<^verbatim>\<open>errors.log\<close>, and a record of level
  \<open>WARNING\<close>, \<open>ERROR\<close> or \<open>CRITICAL\<close> is written to \<^verbatim>\<open>errors.log\<close> and not to
  \<^verbatim>\<open>app.log\<close>. The listener does not fail.
\<close>

theorem routing_disjoint_exhaustive:
  assumes "run acts (module_state ds) = Inr st"
    and "QueueListenerHandler lv q hs resp started \<in> set (root_handlers st)"
  shows "\<exists>st'. QueueListener_handle hs resp r st = Inr st'
     \<and> (levelno r = INFO \<longrightarrow>
          lines_of (File ''logs/app.log'') st' =
            lines_of (File ''logs/app.log'') st @ [Json (JsonFormatter_format json_format r)]
          \<and> lines_of (File ''logs/errors.log'') st' = lines_of (File ''logs/errors.log'') st)
     \<and> (levelno r \<in> {WARNING, ERROR, CRITICAL} \<longrightarrow>
          lines_of (File ''logs/errors.log'') st' =
            lines_of (File ''logs/errors.log'') st
              @ [Json (JsonFormatter_format debug_json_format r)]
          \<and> lines_of (File ''logs/app.log'') st' = lines_of (File ''logs/app.log'') st)"
proof -
  from run_module_ok[OF assms(1)] obtain l d p dbg
    where ok: "state_ok l d p dbg (console_requested acts) st" by blast
  from built_queue_handler[OF ok assms(2)]
  have hs: "hs = listener_handlers dbg" and resp: "resp" by simp_all
  let ?st' = "st\<lparr>written := written st @ listener_writes dbg r\<rparr>"
  have h: "QueueListener_handle hs resp r st = Inr ?st'"
    using hs resp by (simp add: handle_listener)
  have w: "written ?st' = written st @ listener_writes dbg r" by simp
  have a: "levelno r = INFO \<Longrightarrow>
          lines_of (File ''logs/app.log'') ?st' =
            lines_of (File ''logs/app.log'') st @ [Json (JsonFormatter_format json_format r)]
          \<and> lines_of (File ''logs/errors.log'') ?st' = lines_of (File ''logs/errors.log'') st"
    by (simp add: lines_of_def listener_writes_def INFO_def WARNING_def)
  have b: "levelno r \<in> {WARNING, ERROR, CRITICAL} \<Longrightarrow>
          lines_of (File ''logs/errors.log'') ?st' =
            lines_of (File ''logs/errors.log'') st
              @ [Json (JsonFormatter_format debug_json_format r)]
          \<and> lines_of (File ''logs/app.log'') ?st' = lines_of (File ''logs/app.log'') st"
    by (auto simp add: lines_of_def listener_writes_def INFO_def WARNING_def
        ERROR_def CRITICAL_def)
  from h a b show ?thesis by blast
qed

theorem routing_witness:
  "run [Init ''app'' INFO False False True] (module_state [''logs'']) =
     Inr ((module_state [''logs''])
            \<lparr>config := shaped_config INFO False False False True, root_level := INFO,
             root_handlers := built_handlers INFO False True, root_propagate := False\<rparr>)
   \<and> QueueListenerHandler NOTSET default_queue (listener_handlers False) True True
       \<in> set (built_handlers INFO False True)
   \<and> (\<exists>st'. QueueListener_handle (listener_handlers False) True
              \<lparr>rec_name = ''root'', levelno = INFO, levelname = ''INFO'', pathname = ''app.py'',
               lineno = 3, funcName = ''main'', message = ''started'', asctime = ''t1''\<rparr>
              ((module_state [''logs''])
                \<lparr>config := shaped_config INFO False False False True, root_level := INFO,
                 root_handlers := built_handlers INFO False True, root_propagate := False\<rparr>)
            = Inr st'
          \<and> lines_of (File ''logs/app.log'') st' =
              [Json [(''asctime'', JStr ''t1''), (''name'', JStr ''root''),
                     (''levelname'', JStr ''INFO''), (''message'', JStr ''started'')]]
          \<and> lines_of (File ''logs/errors.log'') st' = [])
   \<and> (\<exists>st'. QueueListener_handle (listener_handlers False) True
              \<lparr>rec_name = ''root'', levelno = ERROR, levelname = ''ERROR'', pathname = ''app.py'',
               lineno = 7, funcName = ''main'', message = ''failed'', asctime = ''t2''\<rparr>
              ((module_state [''logs''])
                \<lparr>config := shaped_config INFO False False False True, root_level := INFO,
                 root_handlers := built_handlers INFO False True, root_propagate := False\<rparr>)
            = Inr st'
          \<and> lines_of (File ''logs/errors.log'') st' =
              [Json [(''asctime'', JStr ''t2''), (''name'', JStr ''root''),
                     (''levelname'', JStr ''ERROR''), (''pathname'', JStr ''app.py''),
                     (''lineno'', JNum 7), (''funcName'', JStr ''main''),
                     (''message'', JStr ''failed'')]]
          \<and> lines_of (File ''logs/app.log'') st' = [])"
proof -
  let ?S = "(module_state [''logs''])
            \<lparr>config := shaped_config INFO False False False True, root_level := INFO,
             root_handlers := built_handlers INFO False True, root_propagate := False\<rparr>"
  have r: "run [Init ''app'' INFO False False True] (module_state [''logs'']) = Inr ?S"
    by (simp add: init_module bind_err_def INFO_def DEBUG_def)
  have m: "QueueListenerHandler NOTSET default_queue (listener_handlers False) True True
       \<in> set (root_handlers ?S)"
    by (simp add: built_handlers_def)
  have e: "lines_of (File ''logs/app.log'') ?S = []" "lines_of (File ''logs/errors.log'') ?S = []"
    by (simp_all add: lines_of_def module_state_def)
  have lv: "INFO \<noteq> WARNING" "INFO \<noteq> ERROR" "INFO \<noteq> CRITICAL" "ERROR \<noteq> INFO"
    by (simp_all add: INFO_def WARNING_def ERROR_def CRITICAL_def)
  note t1 = routing_disjoint_exhaustive[OF r m,
      of "\<lparr>rec_name = ''root'', levelno = INFO, levelname = ''INFO'', pathname = ''app.py'',
               lineno = 3, funcName = ''main'', message = ''started'', asctime = ''t1''\<rparr>"]
  note t2 = routing_disjoint_exhaustive[OF r m,
      of "\<lparr>rec_name = ''root'', levelno = ERROR, levelname = ''ERROR'', pathname = ''app.py'',
               lineno = 7, funcName = ''main'', message = ''failed'', asctime = ''t2''\<rparr>"]
  from t1 have c1: "\<exists>st'. QueueListener_handle (listener_handlers False) True
              \<lparr>rec_name = ''root'', levelno = INFO, levelname = ''INFO'', pathname = ''app.py'',
               lineno = 3, funcName = ''main'', message = ''started'', asctime = ''t1''\<rparr> ?S
            = Inr st'
          \<and> lines_of (File ''logs/app.log'') st' =
              [Json [(''asctime'', JStr ''t1''), (''name'', JStr ''root''),
                     (''levelname'', JStr ''INFO''), (''message'', JStr ''started'')]]
          \<and> lines_of (File ''logs/errors.log'') st' = []"
    by (simp add: e format_json lv)
  from t2 have c2: "\<exists>st'. QueueListener_handle (listener_handlers False) True
              \<lparr>rec_name = ''root'', levelno = ERROR, levelname = ''ERROR'', pathname = ''app.py'',
               lineno = 7, funcName = ''main'', message = ''failed'', asctime = ''t2''\<rparr> ?S
            = Inr st'
          \<and> lines_of (File ''logs/errors.log'') st' =
              [Json [(''asctime'', JStr ''t2''), (''name'', JStr ''root''),
                     (''levelname'', JStr ''ERROR''), (''pathname'', JStr ''app.py''),
                     (''lineno'', JNum 7), (''funcName'', JStr ''main''),
                     (''message'', JStr ''failed'')]]
          \<and> lines_of (File ''logs/app.log'') st' = []"
    by (simp add: e format_debug_json lv)
  from m have m': "QueueListenerHandler NOTSET default_queue (listener_handlers False) True True
       \<in> set (built_handlers INFO False True)" by simp
  from r m' c1 c2 show ?thesis by blast
qed

section \<open>Running client programs\<close>

lemma drain_built:
  assumes "root_handlers st = built_handlers l dbg con" and "default_queue < length (queues st)"
  shows "step Drain st =
     Inr (st\<lparr>queues := (queues st)[default_queue :=
                     (queues st ! default_queue)\<lparr>q_items := []\<rparr>],
             written := written st
               @ concat (map (listener_writes dbg) (q_items (queues st ! default_queue)))\<rparr>)"
  using assms
  by (simp add: built_handlers_def bind_err_def monitor_listener[OF assms(2)])

lemma built_state_sel:
  "config (built_state ds l d p dbg con rs ws) = shaped_config l d p dbg con"
  "queues (built_state ds l d p dbg con rs ws) = [\<lparr>maxsize = 1000, q_items = rs\<rparr>]"
  "root_level (built_state ds l d p dbg con rs ws) = l"
  "root_handlers (built_state ds l d p dbg con rs ws) = built_handlers l dbg con"
  "dirs (built_state ds l d p dbg con rs ws) = ds"
  "written (built_state ds l d p dbg con rs ws) = ws"
  by (simp_all add: built_state_def)

lemma init_module_built:
  assumes "''logs'' \<in> set ds"
  shows "init a l d p c (module_state ds) = Inr (built_state ds l d p (l = DEBUG) c [] [])"
  unfolding init_module using assms by (simp add: built_state_def module_state_def)


lemma log_built_state:
  "Logger_log r (built_state ds l d p dbg con rs ws) =
     built_state ds l d p dbg con
       (if 0 < levelno r \<and> l \<le> levelno r \<and> length rs < 1000 then rs @ [r] else rs)
       (ws @ caller_writes l con r)"
  unfolding log_built[OF built_state_sel(4) built_state_sel(3)]
  by (simp add: built_state_def QueueHandler_emit_def put_nowait_def default_queue_def
      caller_writes_def)

lemma drain_built_state:
  "step Drain (built_state ds l d p dbg con rs ws) =
     Inr (built_state ds l d p dbg con [] (ws @ concat (map (listener_writes dbg) rs)))"
proof -
  have q: "default_queue < length (queues (built_state ds l d p dbg con rs ws))"
    by (simp add: built_state_def default_queue_def)
  show ?thesis
    unfolding drain_built[OF built_state_sel(4) q]
    by (simp add: built_state_def default_queue_def)
qed

lemma levels_distinct:
  "0 < DEBUG" "DEBUG < INFO" "INFO < WARNING" "WARNING < ERROR" "ERROR < CRITICAL"
  by (simp_all add: DEBUG_def INFO_def WARNING_def ERROR_def CRITICAL_def)

section \<open>The test script\<close>

text \<open>
  Claim C6. After \<^verbatim>\<open>init("test", level=DEBUG)\<close>, \<^verbatim>\<open>logger.debug("hello first error")\<close>
  produces exactly one JSON line in \<^verbatim>\<open>debug.log\<close>, with message
  \<^verbatim>\<open>hello first error\<close> and level name \<^verbatim>\<open>DEBUG\<close>, and no line in
  \<^verbatim>\<open>app.log\<close> or \<^verbatim>\<open>errors.log\<close>. This is the run of the test script, wherever
  it lies and whenever it runs, in a working directory that has the directory
  \<^verbatim>\<open>logs\<close>; the script succeeds.
\<close>

theorem test_Logging_debug_line:
  assumes "''logs'' \<in> set ds"
  shows "\<exists>st. test_Logging path tm ds = Inr st
     \<and> lines_of (File ''logs/debug.log'') st =
         [Json [(''asctime'', JStr tm), (''name'', JStr ''__main__''),
                (''levelname'', JStr ''DEBUG''), (''pathname'', JStr path),
                (''lineno'', JNum 18), (''funcName'', JStr ''<module>''),
                (''message'', JStr ''hello first error'')]]
     \<and> lines_of (File ''logs/app.log'') st = []
     \<and> lines_of (File ''logs/errors.log'') st = []"
proof -
  let ?r = "\<lparr>rec_name = ''__main__'', levelno = DEBUG, levelname = ''DEBUG'', pathname = path,
        lineno = 18, funcName = ''<module>'', message = ''hello first error'', asctime = tm\<rparr>"
  let ?S = "(module_state ds)\<lparr>config := shaped_config DEBUG False False True True,
                   root_level := DEBUG,
                   root_handlers := built_handlers DEBUG True True,
                   root_propagate := False\<rparr>"
  have i: "init ''test'' DEBUG False False True (module_state ds) = Inr ?S"
    using assms by (simp add: init_module)
  have b: "root_handlers ?S = built_handlers DEBUG True True" "root_level ?S = DEBUG" by simp_all
  let ?L = "?S\<lparr>queues := [\<lparr>maxsize = 1000, q_items = [?r]\<rparr>],
               written := [(Caller, Stdout, Json (JsonFormatter_format debug_json_format ?r))]\<rparr>"
  have l: "Logger_debug ''__main__'' ''hello first error'' path 18 ''<module>'' tm ?S = ?L"
    unfolding Logger_debug_def log_built[OF b]
    by (simp add: QueueHandler_emit_def put_nowait_def module_state_def default_queue_def
        caller_writes_def NOTSET_def DEBUG_def)
  have q: "default_queue < length (queues ?L)" by (simp add: default_queue_def)
  let ?D = "?L\<lparr>queues := [\<lparr>maxsize = 1000, q_items = []\<rparr>],
               written := [(Caller, Stdout, Json (JsonFormatter_format debug_json_format ?r)),
                           (Listener, File ''logs/debug.log'',
                            Json (JsonFormatter_format debug_json_format ?r))]\<rparr>"
  have bl: "root_handlers ?L = built_handlers DEBUG True True" by simp
  have d: "step Drain ?L = Inr ?D"
    unfolding drain_built[OF bl q]
    by (simp add: default_queue_def listener_writes_def DEBUG_def INFO_def WARNING_def)
  have t: "test_Logging path tm ds = Inr ?D"
    unfolding test_Logging_def i by (simp only: bind_err_def sum.case l d)
  show ?thesis
    unfolding t by (simp add: lines_of_def format_debug_json DEBUG_def)
qed

theorem test_Logging_witness:
  "''logs'' \<in> set [''logs'']
   \<and> (\<exists>st. test_Logging ''test_Logging.py'' ''2024-05-01 10:00:00,000'' [''logs''] = Inr st
     \<and> lines_of (File ''logs/debug.log'') st =
         [Json [(''asctime'', JStr ''2024-05-01 10:00:00,000''), (''name'', JStr ''__main__''),
                (''levelname'', JStr ''DEBUG''), (''pathname'', JStr ''test_Logging.py''),
                (''lineno'', JNum 18), (''funcName'', JStr ''<module>''),
                (''message'', JStr ''hello first error'')]]
     \<and> lines_of (File ''logs/app.log'') st = []
     \<and> lines_of (File ''logs/errors.log'') st = [])"
  using test_Logging_debug_line[of "[''logs'']" "''test_Logging.py''" "''2024-05-01 10:00:00,000''"]
  by simp

section \<open>The debug handler\<close>

lemma queue_refs_shaped:
  "queue_refs (shaped_config l d p dbg con) =
     [''cfg://handlers.app_handler'', ''cfg://handlers.error_handler'']
     @ (if dbg then [''cfg://handlers.debug_handler''] else [])"
  by (simp add: queue_refs_def shaped_config_def)

text \<open>
  Claim C5. Attaching the debug file handler is idempotent. When \<^verbatim>\<open>init\<close> has run
  twice with level \<open>DEBUG\<close>, in whatever state of the process, the second call has
  left the queue handler's list of references as the first made it, the reference of the
  debug handler is in it exactly once, the listener has exactly one debug handler, and a
  record that the listener handles adds exactly one line to \<^verbatim>\<open>debug.log\<close>.
\<close>

theorem debug_handler_attached_once:
  assumes "run acts (module_state ds) = Inr st0"
    and "init a1 DEBUG d1 p1 c1 st0 = Inr st1"
    and "init a2 DEBUG d2 p2 c2 st1 = Inr st2"
    and "QueueListenerHandler lv q hs resp started \<in> set (root_handlers st2)"
    and "DEBUG \<le> levelno r"
  shows "queue_refs (config st2) = queue_refs (config st1)
     \<and> count_list (queue_refs (config st2)) ''cfg://handlers.debug_handler'' = 1
     \<and> count_list hs (Inst (StreamHandler debug_handler)) = 1
     \<and> (\<exists>st'. QueueListener_handle hs resp r st2 = Inr st'
          \<and> lines_of (File ''logs/debug.log'') st' =
              lines_of (File ''logs/debug.log'') st2
                @ [Json (JsonFormatter_format debug_json_format r)])"
proof -
  from run_module_ok[OF assms(1)] obtain l d p dbg
    where ok0: "state_ok l d p dbg (console_requested acts) st0" by blast
  from init_ok[OF ok0 assms(2)]
  have ok1: "state_ok DEBUG d1 p1 True (console_requested acts \<or> c1) st1" by simp
  from init_ok[OF ok1 assms(3)]
  have ok2: "state_ok DEBUG d2 p2 True ((console_requested acts \<or> c1) \<or> c2) st2" by simp
  from ok1 have c1: "config st1 = shaped_config DEBUG d1 p1 True (console_requested acts \<or> c1)"
    by (simp add: state_ok_def)
  from ok2 have c2: "config st2 = shaped_config DEBUG d2 p2 True ((console_requested acts \<or> c1) \<or> c2)"
    by (simp add: state_ok_def)
  from built_queue_handler[OF ok2 assms(4)]
  have hs: "hs = listener_handlers True" and resp: "resp" by simp_all
  have n: "count_list hs (Inst (StreamHandler debug_handler)) = 1"
    by (simp add: hs listener_handlers_def app_handler_def error_handler_def debug_handler_def)
  let ?st' = "st2\<lparr>written := written st2 @ listener_writes True r\<rparr>"
  have h: "QueueListener_handle hs resp r st2 = Inr ?st'"
    using hs resp by (simp add: handle_listener)
  have w: "lines_of (File ''logs/debug.log'') ?st' =
              lines_of (File ''logs/debug.log'') st2
                @ [Json (JsonFormatter_format debug_json_format r)]"
    using assms(5) by (simp add: lines_of_def listener_writes_def)
  from n h w show ?thesis by (simp add: c1 c2 queue_refs_shaped)
qed

theorem debug_handler_attached_once_witness:
  "run [] (module_state [''logs'']) = Inr (module_state [''logs''])
   \<and> init ''app'' DEBUG False False False (module_state [''logs'']) =
       Inr ((module_state [''logs''])
             \<lparr>config := shaped_config DEBUG False False True False, root_level := DEBUG,
              root_handlers := built_handlers DEBUG True False, root_propagate := False\<rparr>)
   \<and> init ''app'' DEBUG False False False
       ((module_state [''logs''])
             \<lparr>config := shaped_config DEBUG False False True False, root_level := DEBUG,
              root_handlers := built_handlers DEBUG True False, root_propagate := False\<rparr>) =
       Inr ((module_state [''logs''])
             \<lparr>config := shaped_config DEBUG False False True False, root_level := DEBUG,
              root_handlers := built_handlers DEBUG True False, root_propagate := False\<rparr>)
   \<and> built_handlers DEBUG True False =
       [QueueListenerHandler NOTSET default_queue (listener_handlers True) True True]
   \<and> queue_refs (shaped_config DEBUG False False True False) =
       [''cfg://handlers.app_handler'', ''cfg://handlers.error_handler'',
        ''cfg://handlers.debug_handler'']
   \<and> count_list (listener_handlers True) (Inst (StreamHandler debug_handler)) = 1
   \<and> (\<exists>st'. QueueListener_handle (listener_handlers True) True
          \<lparr>rec_name = ''root'', levelno = DEBUG, levelname = ''DEBUG'', pathname = ''app.py'',
           lineno = 5, funcName = ''main'', message = ''probe'', asctime = ''t1''\<rparr>
          ((module_state [''logs''])
             \<lparr>config := shaped_config DEBUG False False True False, root_level := DEBUG,
              root_handlers := built_handlers DEBUG True False, root_propagate := False\<rparr>)
         = Inr st'
       \<and> lines_of (File ''logs/debug.log'') st' =
          [Json [(''asctime'', JStr ''t1''), (''name'', JStr ''root''),
                 (''levelname'', JStr ''DEBUG''), (''pathname'', JStr ''app.py''),
                 (''lineno'', JNum 5), (''funcName'', JStr ''main''),
                 (''message'', JStr ''probe'')]])"
proof -
  let ?S = "(module_state [''logs''])
             \<lparr>config := shaped_config DEBUG False False True False, root_level := DEBUG,
              root_handlers := built_handlers DEBUG True False, root_propagate := False\<rparr>"
  let ?r = "\<lparr>rec_name = ''root'', levelno = DEBUG, levelname = ''DEBUG'', pathname = ''app.py'',
           lineno = 5, funcName = ''main'', message = ''probe'', asctime = ''t1''\<rparr>"
  have r0: "run [] (module_state [''logs'']) = Inr (module_state [''logs''])" by simp
  have i1: "init ''app'' DEBUG False False False (module_state [''logs'']) = Inr ?S"
    by (simp add: init_module)
  have cS: "config ?S = shaped_config DEBUG False False True False" by simp
  have i2: "init ''app'' DEBUG False False False ?S = Inr ?S"
    unfolding init_shaped[OF cS] by (simp add: module_state_def)
  have b: "built_handlers DEBUG True False =
       [QueueListenerHandler NOTSET default_queue (listener_handlers True) True True]"
    by (simp add: built_handlers_def)
  have m: "QueueListenerHandler NOTSET default_queue (listener_handlers True) True True
             \<in> set (root_handlers ?S)"
    by (simp add: b)
  have lv: "DEBUG \<le> levelno ?r" by simp
  have e: "lines_of (File ''logs/debug.log'') ?S = []" by (simp add: lines_of_def module_state_def)
  note t = debug_handler_attached_once[OF r0 i1 i2 m lv]
  from t have q: "queue_refs (shaped_config DEBUG False False True False) =
       [''cfg://handlers.app_handler'', ''cfg://handlers.error_handler'',
        ''cfg://handlers.debug_handler'']"
    by (simp add: queue_refs_shaped)
  from t have n: "count_list (listener_handlers True) (Inst (StreamHandler debug_handler)) = 1"
    by simp
  from t have x: "\<exists>st'. QueueListener_handle (listener_handlers True) True ?r ?S = Inr st'
       \<and> lines_of (File ''logs/debug.log'') st' =
          [Json [(''asctime'', JStr ''t1''), (''name'', JStr ''root''),
                 (''levelname'', JStr ''DEBUG''), (''pathname'', JStr ''app.py''),
                 (''lineno'', JNum 5), (''funcName'', JStr ''main''),
                 (''message'', JStr ''probe'')]]"
    by (simp add: e format_debug_json)
  from r0 i1 i2 b q n x show ?thesis by blast
qed

section \<open>The console handler\<close>






section \<open>Who writes where\<close>

text \<open>
  The test script up to its call of \<^verbatim>\<open>logger.debug\<close>, before the listener has
  handled anything: the line on the console is there already, written by the calling
  thread. The root logger has two handlers, of which the second is no queue handler.
\<close>

theorem console_written_by_caller:
  "map_sum id written
     (run [Init ''test'' DEBUG False False True,
           Log \<lparr>rec_name = ''__main__'', levelno = DEBUG, levelname = ''DEBUG'',
                pathname = ''test_Logging.py'', lineno = 18, funcName = ''<module>'',
                message = ''hello first error'', asctime = ''t0''\<rparr>]
        (module_state [''logs'']))
   = Inr [(Caller, Stdout,
           Json [(''asctime'', JStr ''t0''), (''name'', JStr ''__main__''),
                 (''levelname'', JStr ''DEBUG''), (''pathname'', JStr ''test_Logging.py''),
                 (''lineno'', JNum 18), (''funcName'', JStr ''<module>''),
                 (''message'', JStr ''hello first error'')])]
   \<and> map_sum id (map is_queue_handler \<circ> root_handlers)
     (run [Init ''test'' DEBUG False False True] (module_state [''logs'']))
   = Inr [True, False]"
  by (simp add: init_module_built log_built_state bind_err_def built_state_sel
      built_handlers_def caller_writes_def format_debug_json levels_distinct)

lemma well_routed_thread:
  assumes "well_routed (t, s, l)"
  shows "(s = Stdout \<and> t = Caller)
     \<or> (s \<in> {File ''logs/app.log'', File ''logs/errors.log'', File ''logs/debug.log''}
        \<and> t = Listener)"
  using assms by (auto split: if_splits)

lemma listener_handlers_files:
  "list_all (\<lambda>i. \<exists>h f. i = Inst (StreamHandler h) \<and> h_stream h = File f) (listener_handlers dbg)"
  by (simp add: listener_handlers_def app_handler_def error_handler_def debug_handler_def)

text \<open>
  Claim C2, amended. After \<^verbatim>\<open>init\<close> returns, every write to the three log files
  is performed by the listener thread, downstream of the queue, and the handlers of the
  listener are file handlers only. The root logger dispatches records to the queue
  handler and, once console logging was requested, also directly to the stream handler of
  the console: every write to the console is performed by the calling thread.
\<close>

theorem files_by_listener_console_by_caller:
  assumes "run acts (module_state ds) = Inr st"
  shows "(\<forall>(t, s, l) \<in> set (written st).
            (s = Stdout \<and> t = Caller)
          \<or> (s \<in> {File ''logs/app.log'', File ''logs/errors.log'', File ''logs/debug.log''}
             \<and> t = Listener))
     \<and> list_all (\<lambda>h. is_queue_handler h \<or> is_console h) (root_handlers st)
     \<and> (\<forall>lv q hs resp started.
           QueueListenerHandler lv q hs resp started \<in> set (root_handlers st) \<longrightarrow>
           list_all (\<lambda>i. \<exists>h f. i = Inst (StreamHandler h) \<and> h_stream h = File f) hs)"
proof -
  from run_module_ok[OF assms] obtain l d p dbg
    where ok: "state_ok l d p dbg (console_requested acts) st" by blast
  then have "list_all well_routed (written st)" by (simp add: state_ok_def)
  then have w: "\<forall>x \<in> set (written st). well_routed x" by (simp only: list_all_iff)
  have a: "\<forall>(t, s, l) \<in> set (written st).
            (s = Stdout \<and> t = Caller)
          \<or> (s \<in> {File ''logs/app.log'', File ''logs/errors.log'', File ''logs/debug.log''}
             \<and> t = Listener)"
  proof (clarify)
    fix t s l assume "(t, s, l) \<in> set (written st)" and "\<not> (s \<in> {File ''logs/app.log'', File ''logs/errors.log'', File ''logs/debug.log''}
             \<and> t = Listener)"
    with w have "well_routed (t, s, l)" by blast
    from well_routed_thread[OF this] \<open>\<not> (s \<in> {File ''logs/app.log'', File ''logs/errors.log'', File ''logs/debug.log''}
             \<and> t = Listener)\<close> show "s = Stdout \<and> t = Caller" by blast
  qed
  have b: "list_all (\<lambda>h. is_queue_handler h \<or> is_console h) (root_handlers st)"
    using ok by (auto simp: state_ok_def built_handlers_def stream_handler_at_def)
  have c: "\<forall>lv q hs resp started.
           QueueListenerHandler lv q hs resp started \<in> set (root_handlers st) \<longrightarrow>
           list_all (\<lambda>i. \<exists>h f. i = Inst (StreamHandler h) \<and> h_stream h = File f) hs"
    using built_queue_handler[OF ok] listener_handlers_files by blast
  from a b c show ?thesis by blast
qed

theorem files_by_listener_witness:
  "run [Init ''test'' DEBUG False False True,
        Log \<lparr>rec_name = ''__main__'', levelno = DEBUG, levelname = ''DEBUG'',
             pathname = ''test_Logging.py'', lineno = 18, funcName = ''<module>'',
             message = ''hello first error'', asctime = ''t0''\<rparr>,
        Drain] (module_state [''logs''])
   = Inr (built_state [''logs''] DEBUG False False True True []
       [(Caller, Stdout,
         Json [(''asctime'', JStr ''t0''), (''name'', JStr ''__main__''),
               (''levelname'', JStr ''DEBUG''), (''pathname'', JStr ''test_Logging.py''),
               (''lineno'', JNum 18), (''funcName'', JStr ''<module>''),
               (''message'', JStr ''hello first error'')]),
        (Listener, File ''logs/debug.log'',
         Json [(''asctime'', JStr ''t0''), (''name'', JStr ''__main__''),
               (''levelname'', JStr ''DEBUG''), (''pathname'', JStr ''test_Logging.py''),
               (''lineno'', JNum 18), (''funcName'', JStr ''<module>''),
               (''message'', JStr ''hello first error'')])])
   \<and> list_all (\<lambda>h. is_queue_handler h \<or> is_console h) (built_handlers DEBUG True True)
   \<and> list_all (\<lambda>i. \<exists>h f. i = Inst (StreamHandler h) \<and> h_stream h = File f)
        (listener_handlers True)"
proof -
  let ?r = "\<lparr>rec_name = ''__main__'', levelno = DEBUG, levelname = ''DEBUG'',
             pathname = ''test_Logging.py'', lineno = 18, funcName = ''<module>'',
             message = ''hello first error'', asctime = ''t0''\<rparr>"
  let ?l = "Json [(''asctime'', JStr ''t0''), (''name'', JStr ''__main__''),
               (''levelname'', JStr ''DEBUG''), (''pathname'', JStr ''test_Logging.py''),
               (''lineno'', JNum 18), (''funcName'', JStr ''<module>''),
               (''message'', JStr ''hello first error'')]"
  let ?S = "built_state [''logs''] DEBUG False False True True []
       [(Caller, Stdout, ?l), (Listener, File ''logs/debug.log'', ?l)]"
  have r: "run [Init ''test'' DEBUG False False True, Log ?r, Drain] (module_state [''logs''])
      = Inr ?S"
    using levels_distinct
    by (simp add: init_module_built log_built_state drain_built_state bind_err_def
        caller_writes_def listener_writes_def format_debug_json del: step.simps(3))
  have m: "QueueListenerHandler NOTSET default_queue (listener_handlers True) True True
      \<in> set (root_handlers ?S)"
    by (simp add: built_state_sel built_handlers_def)
  note t = files_by_listener_console_by_caller[OF r]
  from t have a: "list_all (\<lambda>h. is_queue_handler h \<or> is_console h) (built_handlers DEBUG True True)"
    by (simp add: built_state_sel)
  from t m have b: "list_all (\<lambda>i. \<exists>h f. i = Inst (StreamHandler h) \<and> h_stream h = File f)
        (listener_handlers True)"
    by blast
  from r a b show ?thesis by blast
qed

section \<open>The fields of a line\<close>





section \<open>The default queue\<close>




end
